theory Spec2Isabelle
  imports Complex_Main "HOL-Library.Multiset"
begin

section \<open>The tables of the savings database\<close>

text \<open>
  The backend keeps four SQLite tables (\<^verbatim>\<open>init_db\<close>): users, goals, sacrifices and
  feed_events. A table is the list of its rows in insertion order. Column types are
  translated as follows: INTEGER is \<^typ>\<open>int\<close> (the counters grow by 1 with each
  request, so the 64-bit limit of SQLite is out of reach and is left out), TEXT is
  \<^typ>\<open>string\<close>, a column that may hold NULL is an option, REAL is \<^typ>\<open>real\<close> (exact arithmetic: the rounding of
  binary floating point is not part of this model), and a \<^verbatim>\<open>created_at\<close> column, which
  SQLite fills with CURRENT_TIMESTAMP (a text in the fixed format
  \<^verbatim>\<open>YYYY-MM-DD HH:MM:SS\<close>, whose text order is the order of time), is the number of
  seconds it denotes.
\<close>

record user_row =
  u_id :: int
  u_email :: string
  u_name :: "string option"
  u_avatar_url :: "string option"
  u_google_sub :: string
  u_total_saved :: real
  u_current_streak :: int
  u_last_save_date :: "string option"
  u_created_at :: nat

record goal_row =
  g_id :: int
  g_user_id :: int
  g_title :: string
  g_target_amount :: real
  g_current_amount :: real
  g_category :: string
  g_created_at :: nat

record sacrifice_row =
  s_id :: int
  s_user_id :: int
  s_title :: string
  s_amount :: real
  s_days_count :: int
  s_last_done_date :: "string option"
  s_created_at :: nat

text \<open>
  The \<^verbatim>\<open>event_data\<close> column holds \<^verbatim>\<open>json.dumps\<close> of a dictionary with the keys
  \<^verbatim>\<open>goal_id, title\<close> or \<^verbatim>\<open>sacrifice_id, title, days\<close>; \<^verbatim>\<open>get_feed\<close> reads it back
  with \<^verbatim>\<open>json.loads\<close>. The dictionary itself is stored here.
\<close>

datatype event_data =
  GoalData int string
  | SacrificeData int string int

record feed_row =
  f_id :: int
  f_user_id :: int
  f_event_type :: string
  f_event_data :: event_data
  f_created_at :: nat

record db =
  users :: "user_row list"
  goals :: "goal_row list"
  sacrifices :: "sacrifice_row list"
  feed_events :: "feed_row list"

definition empty_db :: db where
  "empty_db = \<lparr>users = [], goals = [], sacrifices = [], feed_events = []\<rparr>"

text \<open>
  What a handler can end with instead of a result. \<^verbatim>\<open>NotFound\<close> is
  \<^verbatim>\<open>HTTPException(404, ...)\<close>; \<^verbatim>\<open>TypeError\<close> and \<^verbatim>\<open>IntegrityError\<close> are the uncaught
  Python exceptions of \<^verbatim>\<open>dict(None)\<close> and of a violated NOT NULL or UNIQUE
  constraint; \<^verbatim>\<open>ValidationError\<close> is the rejection of a request for the content of
  its fields.
\<close>

datatype error = ValidationError | NotFound | TypeError | IntegrityError

text \<open>The request bodies \<^verbatim>\<open>GoalCreate\<close> and \<^verbatim>\<open>SacrificeCreate\<close>: plain typed fields.\<close>

record goal_create =
  gc_title :: string
  gc_target_amount :: real
  gc_category :: string

record sacrifice_create =
  sc_title :: string
  sc_amount :: real

record goal_created =
  gr_id :: int
  gr_title :: string

record sacrifice_logged =
  sr_message :: string
  sr_days :: int

section \<open>SQL statements\<close>

text \<open>
  \<^verbatim>\<open>c.lastrowid\<close> after an INSERT into a table whose key is
  INTEGER PRIMARY KEY AUTOINCREMENT: one more than the largest key in use, 1 in an
  empty table (no row is ever deleted, so the largest key ever used is in the table).
\<close>

definition next_rowid :: "int list \<Rightarrow> int" where
  "next_rowid ids = fold max ids 0 + 1"

text \<open>\<^verbatim>\<open>c.fetchone()\<close>: the first row of the result, None when there is none.\<close>

definition fetchone :: "'a list \<Rightarrow> 'a option" where
  "fetchone rows = (case rows of [] \<Rightarrow> None | r # _ \<Rightarrow> Some r)"

text \<open>\<^verbatim>\<open>INSERT INTO goals (user_id, title, target_amount, category)\<close>\<close>

definition insert_goal :: "int \<Rightarrow> string \<Rightarrow> real \<Rightarrow> string \<Rightarrow> nat \<Rightarrow> db \<Rightarrow> db" where
  "insert_goal user_id title target_amount category ts d =
     d\<lparr>goals := goals d @
        [\<lparr>g_id = next_rowid (map g_id (goals d)), g_user_id = user_id, g_title = title,
          g_target_amount = target_amount, g_current_amount = 0, g_category = category,
          g_created_at = ts\<rparr>]\<rparr>"

text \<open>\<^verbatim>\<open>INSERT INTO feed_events (user_id, event_type, event_data)\<close>\<close>

definition insert_feed_event :: "int \<Rightarrow> string \<Rightarrow> event_data \<Rightarrow> nat \<Rightarrow> db \<Rightarrow> db" where
  "insert_feed_event user_id event_type data ts d =
     d\<lparr>feed_events := feed_events d @
        [\<lparr>f_id = next_rowid (map f_id (feed_events d)), f_user_id = user_id,
          f_event_type = event_type, f_event_data = data, f_created_at = ts\<rparr>]\<rparr>"

text \<open>\<^verbatim>\<open>SELECT * FROM sacrifices WHERE user_id = ? AND title = ?\<close>\<close>

definition select_sacrifice :: "int \<Rightarrow> string \<Rightarrow> db \<Rightarrow> sacrifice_row list" where
  "select_sacrifice user_id title d =
     filter (\<lambda>s. s_user_id s = user_id \<and> s_title s = title) (sacrifices d)"

text \<open>\<^verbatim>\<open>UPDATE sacrifices SET days_count = ?, last_done_date = ? WHERE id = ?\<close>\<close>

definition set_days :: "int \<Rightarrow> string \<Rightarrow> int \<Rightarrow> sacrifice_row \<Rightarrow> sacrifice_row" where
  "set_days new_days now sid s =
     (if s_id s = sid
      then s\<lparr>s_days_count := new_days, s_last_done_date := Some now\<rparr>
      else s)"

definition update_sacrifice :: "int \<Rightarrow> string \<Rightarrow> int \<Rightarrow> db \<Rightarrow> db" where
  "update_sacrifice new_days now sid d =
     d\<lparr>sacrifices := map (set_days new_days now sid) (sacrifices d)\<rparr>"

text \<open>\<^verbatim>\<open>INSERT INTO sacrifices (user_id, title, amount, last_done_date)\<close>; the column
  \<^verbatim>\<open>days_count\<close> takes its default 1.\<close>

definition insert_sacrifice :: "int \<Rightarrow> string \<Rightarrow> real \<Rightarrow> string \<Rightarrow> nat \<Rightarrow> db \<Rightarrow> db" where
  "insert_sacrifice user_id title amount now ts d =
     d\<lparr>sacrifices := sacrifices d @
        [\<lparr>s_id = next_rowid (map s_id (sacrifices d)), s_user_id = user_id, s_title = title,
          s_amount = amount, s_days_count = 1, s_last_done_date = Some now,
          s_created_at = ts\<rparr>]\<rparr>"

text \<open>\<^verbatim>\<open>UPDATE users SET total_saved = total_saved + ?,
  current_streak = current_streak + 1 WHERE id = ?\<close>\<close>

definition credit_user :: "real \<Rightarrow> int \<Rightarrow> user_row \<Rightarrow> user_row" where
  "credit_user amount user_id u =
     (if u_id u = user_id
      then u\<lparr>u_total_saved := u_total_saved u + amount,
             u_current_streak := u_current_streak u + 1\<rparr>
      else u)"

definition update_user_totals :: "real \<Rightarrow> int \<Rightarrow> db \<Rightarrow> db" where
  "update_user_totals amount user_id d = d\<lparr>users := map (credit_user amount user_id) (users d)\<rparr>"

text \<open>\<^verbatim>\<open>SELECT * FROM users WHERE id = ?\<close> followed by \<^verbatim>\<open>fetchone\<close>.\<close>

definition select_user :: "int \<Rightarrow> db \<Rightarrow> user_row option" where
  "select_user user_id d = fetchone (filter (\<lambda>u. u_id u = user_id) (users d))"

section \<open>The two writing handlers\<close>

text \<open>
  \<^verbatim>\<open>create_goal\<close> (POST /api/goals). \<^verbatim>\<open>user_id\<close> is what \<^verbatim>\<open>get_current_user\<close> read
  from the token; \<^verbatim>\<open>ts_goal\<close> and \<^verbatim>\<open>ts_feed\<close> are CURRENT_TIMESTAMP at the two
  INSERT statements. The handler has no check and no raise: every typed request is
  stored.
\<close>

definition create_goal ::
  "goal_create \<Rightarrow> int \<Rightarrow> nat \<Rightarrow> nat \<Rightarrow> db \<Rightarrow> error + (db \<times> goal_created)" where
  "create_goal goal user_id ts_goal ts_feed d =
     (let goal_id = next_rowid (map g_id (goals d));
          d1 = insert_goal user_id (gc_title goal) (gc_target_amount goal) (gc_category goal)
                 ts_goal d;
          event_data = GoalData goal_id (gc_title goal);
          d2 = insert_feed_event user_id ''goal_created'' event_data ts_feed d1
      in Inr (d2, \<lparr>gr_id = goal_id, gr_title = gc_title goal\<rparr>))"

text \<open>
  \<^verbatim>\<open>log_sacrifice\<close> (POST /api/sacrifices). \<^verbatim>\<open>now\<close> is
  \<^verbatim>\<open>datetime.now().isoformat()\<close>, \<^verbatim>\<open>ts_sac\<close> is CURRENT_TIMESTAMP at the INSERT into
  sacrifices (read only when the title is new) and \<^verbatim>\<open>ts_feed\<close> at the INSERT into
  feed_events.
\<close>

definition log_sacrifice ::
  "sacrifice_create \<Rightarrow> int \<Rightarrow> string \<Rightarrow> nat \<Rightarrow> nat \<Rightarrow> db \<Rightarrow> error + (db \<times> sacrifice_logged)" where
  "log_sacrifice sacrifice user_id now ts_sac ts_feed d =
     (let existing = fetchone (select_sacrifice user_id (sc_title sacrifice) d);
          new_days = (case existing of Some ex \<Rightarrow> s_days_count ex + 1 | None \<Rightarrow> 1);
          sacrifice_id = (case existing of Some ex \<Rightarrow> s_id ex
                          | None \<Rightarrow> next_rowid (map s_id (sacrifices d)));
          d1 = (case existing of
                  Some ex \<Rightarrow> update_sacrifice new_days now (s_id ex) d
                | None \<Rightarrow> insert_sacrifice user_id (sc_title sacrifice) (sc_amount sacrifice)
                            now ts_sac d);
          d2 = update_user_totals (sc_amount sacrifice) user_id d1;
          event_data = SacrificeData sacrifice_id (sc_title sacrifice) new_days;
          d3 = insert_feed_event user_id ''sacrifice_logged'' event_data ts_feed d2
      in Inr (d3, \<lparr>sr_message = ''Sacrifice logged'', sr_days = new_days\<rparr>))"

section \<open>Accounts: the database part of the login callback\<close>

text \<open>
  The fields of Google's userinfo answer that \<^verbatim>\<open>google_callback\<close> reads:
  \<^verbatim>\<open>info["sub"]\<close> must be there, \<^verbatim>\<open>info.get(...)\<close> may give None.
\<close>

record userinfo =
  ui_sub :: string
  ui_email :: "string option"
  ui_name :: "string option"
  ui_picture :: "string option"

text \<open>
  The \<^verbatim>\<open>with get_db()\<close> block of \<^verbatim>\<open>google_callback\<close>: look the account up by
  \<^verbatim>\<open>google_sub\<close>, insert it when it is new. The columns \<^verbatim>\<open>total_saved\<close> and
  \<^verbatim>\<open>current_streak\<close> take their default 0. \<^verbatim>\<open>email\<close> is UNIQUE NOT NULL, so the
  INSERT raises for a missing or an already stored email.
\<close>

definition google_callback_db :: "userinfo \<Rightarrow> nat \<Rightarrow> db \<Rightarrow> error + (db \<times> int)" where
  "google_callback_db info ts d =
     (case fetchone (filter (\<lambda>u. u_google_sub u = ui_sub info) (users d)) of
        Some user \<Rightarrow> Inr (d, u_id user)
      | None \<Rightarrow>
          (case ui_email info of
             None \<Rightarrow> Inl IntegrityError
           | Some email \<Rightarrow>
               if email \<in> set (map u_email (users d)) then Inl IntegrityError
               else let user_id = next_rowid (map u_id (users d))
                    in Inr (d\<lparr>users := users d @
                              [\<lparr>u_id = user_id, u_email = email, u_name = ui_name info,
                                u_avatar_url = ui_picture info, u_google_sub = ui_sub info,
                                u_total_saved = 0, u_current_streak = 0,
                                u_last_save_date = None, u_created_at = ts\<rparr>]\<rparr>,
                            user_id)))"

section \<open>Runs of the engine\<close>

text \<open>
  A request that writes, with the clock readings it meets. A handler that raises has
  committed nothing, so the database stays as it was.
\<close>

datatype request =
  CreateGoal goal_create int nat nat
  | LogSacrifice sacrifice_create int string nat nat
  | GoogleCallback userinfo nat

definition committed :: "error + (db \<times> 'a) \<Rightarrow> db \<Rightarrow> db" where
  "committed res d = (case res of Inl _ \<Rightarrow> d | Inr (d', _) \<Rightarrow> d')"

fun handle :: "request \<Rightarrow> db \<Rightarrow> db" where
  "handle (CreateGoal goal user_id ts_goal ts_feed) d =
     committed (create_goal goal user_id ts_goal ts_feed d) d"
| "handle (LogSacrifice sacrifice user_id now ts_sac ts_feed) d =
     committed (log_sacrifice sacrifice user_id now ts_sac ts_feed d) d"
| "handle (GoogleCallback info ts) d = committed (google_callback_db info ts d) d"

fun run :: "request list \<Rightarrow> db \<Rightarrow> db" where
  "run [] d = d"
| "run (r # rs) d = run rs (handle r d)"


section \<open>The reading handlers\<close>

text \<open>
  \<^verbatim>\<open>ORDER BY key DESC\<close>: the answer holds the same rows, keys never increasing. SQL
  leaves the order of rows with equal keys to the engine, so this is a relation between
  the rows and the answers the statement allows, not a function.
\<close>

definition order_by_desc :: "('a \<Rightarrow> 'k::linorder) \<Rightarrow> 'a list \<Rightarrow> 'a list \<Rightarrow> bool" where
  "order_by_desc key rows out \<longleftrightarrow>
     mset out = mset rows \<and> sorted_wrt (\<lambda>a b. key b \<le> key a) out"

text \<open>\<^verbatim>\<open>get_me\<close> (GET /api/me).\<close>

definition get_me :: "int \<Rightarrow> db \<Rightarrow> error + user_row" where
  "get_me user_id d =
     (case select_user user_id d of None \<Rightarrow> Inl NotFound | Some user \<Rightarrow> Inr user)"

text \<open>
  \<^verbatim>\<open>get_dashboard\<close> (GET /api/dashboard). The first statement is
  \<^verbatim>\<open>user = dict(c.fetchone())\<close> with no test of the row: \<^verbatim>\<open>dict(None)\<close> raises
  TypeError before the other two queries run.
\<close>

record dashboard =
  d_user :: user_row
  d_goals :: "goal_row list"
  d_sacrifices :: "sacrifice_row list"

definition get_dashboard :: "int \<Rightarrow> db \<Rightarrow> error + dashboard \<Rightarrow> bool" where
  "get_dashboard user_id d out \<longleftrightarrow>
     (case select_user user_id d of
        None \<Rightarrow> out = Inl TypeError
      | Some user \<Rightarrow>
          (\<exists>gs ss.
             order_by_desc g_created_at (filter (\<lambda>g. g_user_id g = user_id) (goals d)) gs \<and>
             order_by_desc s_created_at
               (filter (\<lambda>s. s_user_id s = user_id) (sacrifices d)) ss \<and>
             out = Inr \<lparr>d_user = user, d_goals = gs, d_sacrifices = take 5 ss\<rparr>))"








text \<open>
  The keys of the tables: \<^verbatim>\<open>id\<close> is the primary key of users and of sacrifices,
  and the check-then-insert of \<^verbatim>\<open>log_sacrifice\<close> keeps one sacrifice per account
  and title (the schema itself declares no such constraint).
\<close>

definition keys_ok :: "db \<Rightarrow> bool" where
  "keys_ok d \<longleftrightarrow>
     distinct (map u_id (users d)) \<and> distinct (map s_id (sacrifices d)) \<and>
     distinct (map (\<lambda>s. (s_user_id s, s_title s)) (sacrifices d))"

section \<open>Example data\<close>

text \<open>
  Two accounts as the login callback stores them, and the requests of the example of
  the specification: "Skipped Coffee" logged for 4.50 and then again for 5.00.
\<close>

definition alice_info :: userinfo where
  "alice_info = \<lparr>ui_sub = ''sub-alice'', ui_email = Some ''alice@example.com'',
                  ui_name = Some ''Alice'', ui_picture = None\<rparr>"


definition alice_row :: user_row where
  "alice_row = \<lparr>u_id = 1, u_email = ''alice@example.com'', u_name = Some ''Alice'',
                 u_avatar_url = None, u_google_sub = ''sub-alice'', u_total_saved = 0,
                 u_current_streak = 0, u_last_save_date = None, u_created_at = 100\<rparr>"


definition db_alice :: db where
  "db_alice = run [GoogleCallback alice_info 100] empty_db"

















section \<open>Facts about the SQL statements\<close>




lemma u_id_credit_user [simp]: "u_id (credit_user amount user_id u) = u_id u"
  by (simp add: credit_user_def)

lemma set_days_fields [simp]:
  "s_id (set_days new_days now sid s) = s_id s"
  "s_user_id (set_days new_days now sid s) = s_user_id s"
  "s_title (set_days new_days now sid s) = s_title s"
  "s_amount (set_days new_days now sid s) = s_amount s"
  "s_created_at (set_days new_days now sid s) = s_created_at s"
  by (simp_all add: set_days_def)


text \<open>The answers of an ORDER BY: there is one, and what a LIMIT keeps of it.\<close>

lemma order_by_desc_exists: "\<exists>out. order_by_desc key rows out"
proof -
  have "sorted (map key (sort_key key rows))" by simp
  then have "sorted_wrt (\<lambda>a b. key a \<le> key b) (sort_key key rows)"
    by (simp add: sorted_wrt_map)
  then have "sorted_wrt (\<lambda>a b. key b \<le> key a) (rev (sort_key key rows))"
    by (simp add: sorted_wrt_rev)
  then have "order_by_desc key rows (rev (sort_key key rows))"
    by (simp add: order_by_desc_def)
  then show ?thesis ..
qed

lemma order_by_desc_take:
  assumes "order_by_desc key rows out"
  shows "length (take n out) = min n (length rows)"
    and "sorted_wrt (\<lambda>a b. key b \<le> key a) (take n out)"
    and "set (take n out) \<subseteq> set rows"
proof -
  from assms have m: "mset out = mset rows" and s: "sorted_wrt (\<lambda>a b. key b \<le> key a) out"
    by (simp_all add: order_by_desc_def)
  from m have "length out = length rows" by (rule mset_eq_length)
  then show "length (take n out) = min n (length rows)" by simp
  from s show "sorted_wrt (\<lambda>a b. key b \<le> key a) (take n out)" by (rule sorted_wrt_take)
  from m have "set out = set rows" by (rule mset_eq_setD)
  then show "set (take n out) \<subseteq> set rows" using set_take_subset [of n out] by simp
qed


section \<open>What the writing handlers return\<close>

lemma create_goal_result:
  "create_goal goal user_id ts_goal ts_feed d =
     Inr (d\<lparr>goals := goals d @
              [\<lparr>g_id = next_rowid (map g_id (goals d)), g_user_id = user_id,
                g_title = gc_title goal, g_target_amount = gc_target_amount goal,
                g_current_amount = 0, g_category = gc_category goal, g_created_at = ts_goal\<rparr>],
            feed_events := feed_events d @
              [\<lparr>f_id = next_rowid (map f_id (feed_events d)), f_user_id = user_id,
                f_event_type = ''goal_created'',
                f_event_data = GoalData (next_rowid (map g_id (goals d))) (gc_title goal),
                f_created_at = ts_feed\<rparr>]\<rparr>,
          \<lparr>gr_id = next_rowid (map g_id (goals d)), gr_title = gc_title goal\<rparr>)"
  by (simp add: create_goal_def Let_def insert_goal_def insert_feed_event_def)

lemma log_sacrifice_existing:
  assumes "fetchone (select_sacrifice user_id (sc_title sacrifice) d) = Some ex"
  shows "log_sacrifice sacrifice user_id now ts_sac ts_feed d =
     Inr (d\<lparr>users := map (credit_user (sc_amount sacrifice) user_id) (users d),
            sacrifices := map (set_days (s_days_count ex + 1) now (s_id ex)) (sacrifices d),
            feed_events := feed_events d @
              [\<lparr>f_id = next_rowid (map f_id (feed_events d)), f_user_id = user_id,
                f_event_type = ''sacrifice_logged'',
                f_event_data = SacrificeData (s_id ex) (sc_title sacrifice) (s_days_count ex + 1),
                f_created_at = ts_feed\<rparr>]\<rparr>,
          \<lparr>sr_message = ''Sacrifice logged'', sr_days = s_days_count ex + 1\<rparr>)"
  using assms
  by (simp add: log_sacrifice_def Let_def update_sacrifice_def update_user_totals_def
      insert_feed_event_def)

lemma log_sacrifice_new:
  assumes "select_sacrifice user_id (sc_title sacrifice) d = []"
  shows "log_sacrifice sacrifice user_id now ts_sac ts_feed d =
     Inr (d\<lparr>users := map (credit_user (sc_amount sacrifice) user_id) (users d),
            sacrifices := sacrifices d @
              [\<lparr>s_id = next_rowid (map s_id (sacrifices d)), s_user_id = user_id,
                s_title = sc_title sacrifice, s_amount = sc_amount sacrifice,
                s_days_count = 1, s_last_done_date = Some now, s_created_at = ts_sac\<rparr>],
            feed_events := feed_events d @
              [\<lparr>f_id = next_rowid (map f_id (feed_events d)), f_user_id = user_id,
                f_event_type = ''sacrifice_logged'',
                f_event_data = SacrificeData (next_rowid (map s_id (sacrifices d)))
                                 (sc_title sacrifice) 1,
                f_created_at = ts_feed\<rparr>]\<rparr>,
          \<lparr>sr_message = ''Sacrifice logged'', sr_days = 1\<rparr>)"
  using assms
  by (simp add: log_sacrifice_def Let_def insert_sacrifice_def update_user_totals_def
      insert_feed_event_def fetchone_def)

lemma users_log_sacrifice:
  "\<exists>d' r. log_sacrifice sacrifice user_id now ts_sac ts_feed d = Inr (d', r) \<and>
     users d' = map (credit_user (sc_amount sacrifice) user_id) (users d) \<and>
     goals d' = goals d"
proof (cases "fetchone (select_sacrifice user_id (sc_title sacrifice) d)")
  case None
  then have "select_sacrifice user_id (sc_title sacrifice) d = []"
    by (simp add: fetchone_def split: list.splits)
  then show ?thesis by (simp add: log_sacrifice_new)
next
  case (Some ex)
  then show ?thesis by (simp add: log_sacrifice_existing)
qed

section \<open>An account along a run\<close>







section \<open>Keys stay unique\<close>

text \<open>
  Every request keeps the keys unique, so in a database that the handlers have built
  from the empty one the row that \<^verbatim>\<open>log_sacrifice\<close> fetches for an account and a
  title is the only one.
\<close>

lemma next_rowid_fresh: "next_rowid ids \<notin> set ids"
proof
  assume "next_rowid ids \<in> set ids"
  then have "next_rowid ids \<le> Max (set (0 # ids))" by simp
  also have "Max (set (0 # ids)) = fold max ids 0" by (rule Max.set_eq_fold)
  finally show False by (simp add: next_rowid_def)
qed

lemma filter_key_unique:
  "distinct (map f xs) \<Longrightarrow> fetchone (filter (\<lambda>x. f x = k) xs) = Some x \<Longrightarrow>
   filter (\<lambda>x. f x = k) xs = [x]"
proof (induction xs)
  case Nil
  then show ?case by (simp add: fetchone_def)
next
  case (Cons y ys)
  show ?case
  proof (cases "f y = k")
    case True
    from Cons.prems(1) have "f y \<notin> f ` set ys" by simp
    with True have "\<forall>z\<in>set ys. f z \<noteq> k" by (metis imageI)
    then have "filter (\<lambda>x. f x = k) ys = []" by (simp add: filter_empty_conv)
    with True Cons.prems(2) show ?thesis by (simp add: fetchone_def)
  next
    case False
    with Cons show ?thesis by simp
  qed
qed

lemma select_sacrifice_unique:
  assumes "keys_ok d" and "fetchone (select_sacrifice user_id title d) = Some ex"
  shows "select_sacrifice user_id title d = [ex]"
proof -
  have eq: "select_sacrifice user_id title d =
          filter (\<lambda>s. (s_user_id s, s_title s) = (user_id, title)) (sacrifices d)"
    by (simp add: select_sacrifice_def)
  from assms(1) have "distinct (map (\<lambda>s. (s_user_id s, s_title s)) (sacrifices d))"
    by (simp add: keys_ok_def)
  from filter_key_unique [OF this, of "(user_id, title)" ex] assms(2) show ?thesis
    unfolding eq by simp
qed

lemma keys_ok_empty_db: "keys_ok empty_db"
  by (simp add: keys_ok_def empty_db_def)

lemma keys_ok_handle:
  assumes "keys_ok d"
  shows "keys_ok (handle r d)"
proof (cases r)
  case (CreateGoal goal user_id ts_goal ts_feed)
  then show ?thesis using assms by (simp add: create_goal_result committed_def keys_ok_def)
next
  case (LogSacrifice sacrifice user_id now ts_sac ts_feed)
  show ?thesis
  proof (cases "fetchone (select_sacrifice user_id (sc_title sacrifice) d)")
    case None
    then have empty: "select_sacrifice user_id (sc_title sacrifice) d = []"
      by (simp add: fetchone_def split: list.splits)
    then have "\<forall>s\<in>set (sacrifices d). (s_user_id s, s_title s) \<noteq> (user_id, sc_title sacrifice)"
      by (auto simp: select_sacrifice_def filter_empty_conv)
    then have "(user_id, sc_title sacrifice) \<notin> (\<lambda>s. (s_user_id s, s_title s)) ` set (sacrifices d)"
      by auto
    then show ?thesis using assms LogSacrifice next_rowid_fresh [of "map s_id (sacrifices d)"]
      by (simp add: log_sacrifice_new [OF empty] committed_def keys_ok_def o_def)
  next
    case (Some ex)
    then show ?thesis using assms LogSacrifice
      by (simp add: log_sacrifice_existing committed_def keys_ok_def o_def)
  qed
next
  case (GoogleCallback info ts)
  then show ?thesis using assms next_rowid_fresh [of "map u_id (users d)"]
    by (auto simp: committed_def google_callback_db_def Let_def keys_ok_def split: option.splits)
qed

lemma keys_ok_run: "keys_ok d \<Longrightarrow> keys_ok (run rs d)"
  by (induction rs arbitrary: d) (simp_all add: keys_ok_handle del: handle.simps)

section \<open>The example databases, evaluated\<close>

lemma db_alice_eq: "db_alice = empty_db\<lparr>users := [alice_row]\<rparr>"
  by (simp add: db_alice_def committed_def google_callback_db_def alice_info_def empty_db_def
      fetchone_def next_rowid_def alice_row_def)











section \<open>Totals and streaks\<close>






section \<open>Input that the handlers take\<close>





section \<open>Repeated and new sacrifices\<close>





section \<open>What the writing handlers leave alone\<close>

text \<open>
  C10. \<^verbatim>\<open>create_goal\<close> succeeds and leaves the users table (total saved and streak
  of every account) and the sacrifices table as they were; the goals that were there
  are still there, unchanged, before the new one. \<^verbatim>\<open>log_sacrifice\<close> succeeds and
  leaves the goals table, progress amounts included, as it was.
\<close>

theorem writers_frame:
  "(\<exists>d' r g. create_goal goal user_id ts_goal ts_feed d = Inr (d', r) \<and>
      users d' = users d \<and> sacrifices d' = sacrifices d \<and> goals d' = goals d @ [g]) \<and>
   (\<exists>d' r. log_sacrifice sacrifice user_id' now ts_sac ts_feed' d = Inr (d', r) \<and>
      goals d' = goals d)"
proof
  show "\<exists>d' r g. create_goal goal user_id ts_goal ts_feed d = Inr (d', r) \<and>
      users d' = users d \<and> sacrifices d' = sacrifices d \<and> goals d' = goals d @ [g]"
    by (simp add: create_goal_result)
  from users_log_sacrifice [of sacrifice user_id' now ts_sac ts_feed' d]
  show "\<exists>d' r. log_sacrifice sacrifice user_id' now ts_sac ts_feed' d = Inr (d', r) \<and>
      goals d' = goals d"
    by blast
qed

section \<open>The dashboard\<close>

text \<open>
  For an account that is in the users table the dashboard has an answer, and every
  answer is the account's row, all of its goals with creation times never increasing,
  and at most 5 of its sacrifices with creation times never increasing. The handler
  writes nothing: its answers are a relation on the database it reads.
\<close>

lemma get_dashboard_existing:
  assumes "select_user user_id d = Some user"
  shows "(\<exists>out. get_dashboard user_id d out) \<and>
   (\<forall>out. get_dashboard user_id d out \<longrightarrow>
      (\<exists>dash. out = Inr dash \<and> d_user dash = user \<and>
         mset (d_goals dash) = mset (filter (\<lambda>g. g_user_id g = user_id) (goals d)) \<and>
         sorted_wrt (\<lambda>a b. g_created_at b \<le> g_created_at a) (d_goals dash) \<and>
         length (d_sacrifices dash) \<le> 5 \<and>
         set (d_sacrifices dash) \<subseteq> {s \<in> set (sacrifices d). s_user_id s = user_id} \<and>
         sorted_wrt (\<lambda>a b. s_created_at b \<le> s_created_at a) (d_sacrifices dash)))"
proof (intro conjI allI impI)
  from order_by_desc_exists [of g_created_at "filter (\<lambda>g. g_user_id g = user_id) (goals d)"]
    order_by_desc_exists [of s_created_at "filter (\<lambda>s. s_user_id s = user_id) (sacrifices d)"]
  show "\<exists>out. get_dashboard user_id d out" using assms
    by (auto simp: get_dashboard_def)
next
  fix out assume "get_dashboard user_id d out"
  with assms obtain gs ss where
    g: "order_by_desc g_created_at (filter (\<lambda>g. g_user_id g = user_id) (goals d)) gs" and
    s: "order_by_desc s_created_at (filter (\<lambda>s. s_user_id s = user_id) (sacrifices d)) ss" and
    o: "out = Inr \<lparr>d_user = user, d_goals = gs, d_sacrifices = take 5 ss\<rparr>"
    by (auto simp: get_dashboard_def)
  from g have "mset gs = mset (filter (\<lambda>g. g_user_id g = user_id) (goals d))"
    and "sorted_wrt (\<lambda>a b. g_created_at b \<le> g_created_at a) gs"
    by (simp_all add: order_by_desc_def)
  moreover from order_by_desc_take(2,3) [OF s, of 5]
  have "sorted_wrt (\<lambda>a b. s_created_at b \<le> s_created_at a) (take 5 ss)"
    and "set (take 5 ss) \<subseteq> {s \<in> set (sacrifices d). s_user_id s = user_id}" by auto
  ultimately show "\<exists>dash. out = Inr dash \<and> d_user dash = user \<and>
         mset (d_goals dash) = mset (filter (\<lambda>g. g_user_id g = user_id) (goals d)) \<and>
         sorted_wrt (\<lambda>a b. g_created_at b \<le> g_created_at a) (d_goals dash) \<and>
         length (d_sacrifices dash) \<le> 5 \<and>
         set (d_sacrifices dash) \<subseteq> {s \<in> set (sacrifices d). s_user_id s = user_id} \<and>
         sorted_wrt (\<lambda>a b. s_created_at b \<le> s_created_at a) (d_sacrifices dash)"
    using o by simp
qed

text \<open>
  C7. The dashboard of an account that is not in the users table is specified to fail
  with NotFound, which is what \<^verbatim>\<open>get_me\<close> raises after testing the row it
  fetched. \<^verbatim>\<open>get_dashboard\<close> does not test the row: it passes None to \<^verbatim>\<open>dict\<close>
  and ends with TypeError. Here the token names account 7 and the database holds
  account 1 only.
\<close>

theorem get_dashboard_missing_account:
  "select_user 7 db_alice = None \<and>
   get_dashboard 7 db_alice (Inl TypeError) \<and> \<not> get_dashboard 7 db_alice (Inl NotFound) \<and>
   get_me 7 db_alice = Inl NotFound"
  by (simp add: get_dashboard_def get_me_def select_user_def db_alice_eq empty_db_def
      fetchone_def alice_row_def)

section \<open>The leaderboard\<close>




section \<open>The feed\<close>





end
